theory Spec2Isabelle
  imports Complex_Main
begin

section \<open>The booking flow of the charger marketplace front end\<close>

text \<open>
  The reservation logic that the repository ships is the \<open>BookingFlow\<close> component
  (second document of \<^verbatim>\<open>frontend/src/components/ChargerList.tsx\<close>) together with the
  type declarations of \<^verbatim>\<open>frontend/src/types/index.ts\<close>. The component keeps its data in
  React state; every handler is modelled as a function from the state it reads (and, where the
  handler reads the clock or \<^verbatim>\<open>Math.random\<close>, from the values read) to the toasts it
  shows and the state it leaves.

  Numbers: a JavaScript \<^verbatim>\<open>number\<close> is modelled as an exact rational, so \<^verbatim>\<open>0.8\<close> is
  \<open>4/5\<close> and \<^verbatim>\<open>0.15\<close> is \<open>3/20\<close>; rounding of IEEE doubles is outside the model.
  Dates: a \<^verbatim>\<open>Date\<close> is the number of milliseconds on the local wall-clock time line
  (a constant offset from UTC, no daylight-saving jumps), so local midnight is a multiple
  of 86400000. The section on the runtime's time zone below gives the date-dependent
  handlers again for a zone whose offset may change, with this reading as the instance of
  a zone fixed at offset 0.
\<close>

type_synonym number = rat
type_synonym instant = int

subsection \<open>Types (types/index.ts)\<close>

datatype PricingType = per_hour | per_kwh | flat_rate

datatype ChargerStatus = available | in_use | maintenance | offline | fault

datatype BookingStatus =
  pending | confirmed | active | completed | cancelled | failed | no_show | expired

datatype PaymentStatus =
  payment_pending | payment_processing | payment_completed | payment_failed
  | payment_refunded | payment_partial_refund

text \<open>
  The value of an \<^verbatim>\<open><input type="time">\<close>, also the optional \<^verbatim>\<open>"HH:mm"\<close> strings of a
  pricing rule: the empty string (or \<^verbatim>\<open>undefined\<close>), or hours and minutes.
\<close>

datatype time_input = NoTime | HHmm nat nat

record ChargerPricing =
  pricing_type :: PricingType
  price_value :: number
  min_session_minutes :: number
  max_session_minutes :: number
  peak_hours_start :: time_input
  peak_hours_end :: time_input
  peak_price_multiplier :: number
  weekend_price_multiplier :: number
  booking_fee :: number
  overstay_fee_per_hour :: number
  late_cancellation_fee :: number
  advance_booking_hours :: number
  same_day_booking :: bool

text \<open>
  Of \<^verbatim>\<open>Charger\<close> and \<^verbatim>\<open>User\<close> only the fields that the booking flow and the details page
  read are kept; the descriptive fields (title, address, images, ratings) are never read by
  the code modelled here.
\<close>

record Charger =
  id_charger :: int
  max_power_kw :: number
  current_status :: ChargerStatus
  is_active :: bool
  auto_accept_bookings :: bool
  pricing :: "ChargerPricing option"

record User =
  id_user :: int

record VehicleInfo =
  vehicle_type :: string
  batteryCapacity :: string
  currentCharge :: string
  targetCharge :: string

text \<open>The data URL built by \<^verbatim>\<open>generateQRCode\<close>: an SVG image showing the given code.\<close>

datatype qr_code = SvgDataUrl string

text \<open>
  \<^verbatim>\<open>start_time\<close>, \<^verbatim>\<open>end_time\<close>, \<^verbatim>\<open>created_at\<close> and \<^verbatim>\<open>updated_at\<close> hold the ISO string of
  a \<^verbatim>\<open>Date\<close>; they are modelled as the instant itself.
\<close>

record Booking =
  id_booking :: int
  charger_id :: int
  renter_id :: int
  start_time :: instant
  end_time :: instant
  status :: BookingStatus
  payment_status :: PaymentStatus
  booking_code :: string
  total_amount :: number
  paid_amount :: number
  currency :: string
  qr_code_url :: qr_code
  access_code :: string
  vehicle_info :: VehicleInfo
  special_instructions :: string
  created_at :: instant
  updated_at :: instant
  charger :: Charger

subsection \<open>Component state (BookingFlow)\<close>

record PriceEstimate =
  duration_hours :: number
  energy_estimate_kwh :: number
  subtotal :: number
  platform_fee :: number
  booking_fee_pe :: number
  total_pe :: number
  pricing_type_pe :: PricingType
  unit_price :: number

text \<open>
  The state \<^verbatim>\<open>availableSlots\<close> is left out: \<^verbatim>\<open>generateTimeSlots\<close> fills it with
  half-hour slots from 06:00 to 22:00 whose availability is \<^verbatim>\<open>Math.random() > 0.3\<close>, and
  no handler and no part of the page reads it.
\<close>

record BookingFlow =
  currentStep :: nat
  isLoading :: bool
  selectedDate :: instant
  startTime :: time_input
  endTime :: time_input
  vehicleInfo :: VehicleInfo
  specialInstructions :: string
  priceEstimate :: "PriceEstimate option"
  completedBooking :: "Booking option"

text \<open>
  A toast shown to the user. The two duration messages interpolate a number
  (\<^verbatim>\<open>Minimum session duration is ${minDuration} hours\<close>), kept as the number.
\<close>

datatype toast =
  toast_error string
  | toast_error_min_duration number
  | toast_error_max_duration number
  | toast_success string

text \<open>
  What one run of \<^verbatim>\<open>submitBooking\<close> reads from outside the component: the clock when it
  validates, the four \<^verbatim>\<open>Math.random()\<close> draws and the two clock readings of the booking
  it builds. A draw that is printed with \<^verbatim>\<open>toString(36)\<close> is given by the base-36 digits
  after the point.
\<close>

record World =
  now :: instant
  random_id :: number
  random_booking_code :: "nat list"
  random_qr_code :: "nat list"
  random_access_code :: "nat list"
  now_created :: instant
  now_updated :: instant

record Submitted =
  toasts :: "toast list"
  created :: "Booking option"
  flow :: BookingFlow

subsection \<open>Dates and numbers\<close>

definition ms_per_day :: int where
  "ms_per_day = 86400000"

definition ms_per_minute :: int where
  "ms_per_minute = 60000"

text \<open>
  \<^verbatim>\<open>new Date(`${format(selectedDate, 'yyyy-MM-dd')}T${time}`)\<close>: the given clock time on
  the local calendar day of \<open>d\<close>, read at a constant offset from UTC; \<open>dateAt_tz\<close> below
  reads it in a zone whose offset may change.
\<close>

definition dateAt :: "instant \<Rightarrow> nat \<Rightarrow> nat \<Rightarrow> instant" where
  "dateAt d h m = (d div ms_per_day) * ms_per_day + (int h * 60 + int m) * ms_per_minute"

text \<open>date-fns \<^verbatim>\<open>differenceInMinutes\<close>: the difference in milliseconds over 60000, truncated
  towards zero.\<close>

definition differenceInMinutes :: "instant \<Rightarrow> instant \<Rightarrow> int" where
  "differenceInMinutes later earlier =
     (let diff = later - earlier
      in if 0 \<le> diff then diff div ms_per_minute else - ((- diff) div ms_per_minute))"

text \<open>date-fns \<^verbatim>\<open>isBefore\<close>.\<close>

definition isBefore :: "instant \<Rightarrow> instant \<Rightarrow> bool" where
  "isBefore d dateToCompare = (d < dateToCompare)"

text \<open>\<^verbatim>\<open>x || fallback\<close> on numbers: zero is falsy.\<close>

definition or_default :: "number \<Rightarrow> number \<Rightarrow> number" where
  "or_default x fallback = (if x = 0 then fallback else x)"

text \<open>\<^verbatim>\<open>.toString(36).substr(2, n).toUpperCase()\<close> of a draw given by its digits.\<close>

definition base36_upper :: "nat \<Rightarrow> char" where
  "base36_upper d = ''0123456789ABCDEFGHIJKLMNOPQRSTUVWXYZ'' ! (d mod 36)"

definition random_text :: "nat \<Rightarrow> nat list \<Rightarrow> string" where
  "random_text n digits = map base36_upper (take n digits)"

definition generateQRCode :: "string \<Rightarrow> qr_code" where
  "generateQRCode bookingCode = SvgDataUrl bookingCode"

subsection \<open>calculatePriceEstimate\<close>

text \<open>
  The result is the toasts shown and, when \<^verbatim>\<open>setPriceEstimate\<close> is reached, its argument.
  The three early exits leave the stored estimate untouched.
\<close>

definition calculatePriceEstimate :: "Charger \<Rightarrow> BookingFlow \<Rightarrow> toast list \<times> PriceEstimate option" where
  "calculatePriceEstimate ch st =
     (case (startTime st, endTime st, pricing ch) of
        (HHmm sh sm, HHmm eh em, Some p) \<Rightarrow>
          (let start = dateAt (selectedDate st) sh sm;
               end = dateAt (selectedDate st) eh em
           in if end \<le> start then ([toast_error ''End time must be after start time''], None)
              else
                (let durationHours = of_int (differenceInMinutes end start) / 60;
                     minDuration = or_default (min_session_minutes p) 30 / 60;
                     maxDuration = or_default (max_session_minutes p) 480 / 60
                 in if durationHours < minDuration then ([toast_error_min_duration minDuration], None)
                    else if durationHours > maxDuration then ([toast_error_max_duration maxDuration], None)
                    else
                      (let (subtotal, energyEstimate) =
                             (if pricing_type p = per_hour
                              then (durationHours * price_value p,
                                    durationHours * max_power_kw ch * (4 / 5))
                              else if pricing_type p = per_kwh
                              then (let energy = durationHours * max_power_kw ch * (4 / 5)
                                    in (energy * price_value p, energy))
                              else (price_value p,
                                    durationHours * max_power_kw ch * (4 / 5)));
                           bookingFee = or_default (booking_fee p) 0;
                           platformFeeRate = 15 / 100;
                           platformFee = subtotal * platformFeeRate;
                           total = subtotal + bookingFee + platformFee
                       in ([], Some \<lparr> duration_hours = durationHours,
                                      energy_estimate_kwh = energyEstimate,
                                      subtotal = subtotal,
                                      platform_fee = platformFee,
                                      booking_fee_pe = bookingFee,
                                      total_pe = total,
                                      pricing_type_pe = pricing_type p,
                                      unit_price = price_value p \<rparr>))))
      | _ \<Rightarrow> ([], None))"

text \<open>The state after the call: \<^verbatim>\<open>setPriceEstimate\<close> stores the estimate when one is computed.\<close>

definition run_calculatePriceEstimate :: "Charger \<Rightarrow> BookingFlow \<Rightarrow> toast list \<times> BookingFlow" where
  "run_calculatePriceEstimate ch st =
     (case calculatePriceEstimate ch st of
        (ts, Some e) \<Rightarrow> (ts, st\<lparr>priceEstimate := Some e\<rparr>)
      | (ts, None) \<Rightarrow> (ts, st))"

text \<open>
  The effect with dependencies \<^verbatim>\<open>[startTime, endTime, vehicleInfo]\<close>, and the three setters
  that trigger it.
\<close>

definition priceEffect :: "Charger \<Rightarrow> BookingFlow \<Rightarrow> toast list \<times> BookingFlow" where
  "priceEffect ch st =
     (if startTime st \<noteq> NoTime \<and> endTime st \<noteq> NoTime \<and> pricing ch \<noteq> None
      then run_calculatePriceEstimate ch st else ([], st))"

definition setStartTime :: "Charger \<Rightarrow> time_input \<Rightarrow> BookingFlow \<Rightarrow> toast list \<times> BookingFlow" where
  "setStartTime ch v st = priceEffect ch (st\<lparr>startTime := v\<rparr>)"

definition setEndTime :: "Charger \<Rightarrow> time_input \<Rightarrow> BookingFlow \<Rightarrow> toast list \<times> BookingFlow" where
  "setEndTime ch v st = priceEffect ch (st\<lparr>endTime := v\<rparr>)"

definition setVehicleInfo :: "Charger \<Rightarrow> VehicleInfo \<Rightarrow> BookingFlow \<Rightarrow> toast list \<times> BookingFlow" where
  "setVehicleInfo ch v st = priceEffect ch (st\<lparr>vehicleInfo := v\<rparr>)"

subsection \<open>validateTimeSelection, handleNext\<close>

definition validateTimeSelection :: "instant \<Rightarrow> BookingFlow \<Rightarrow> toast list \<times> bool" where
  "validateTimeSelection clock st =
     (case (startTime st, endTime st) of
        (HHmm sh sm, HHmm eh em) \<Rightarrow>
          (let start = dateAt (selectedDate st) sh sm;
               end = dateAt (selectedDate st) eh em
           in if end \<le> start then ([toast_error ''End time must be after start time''], False)
              else if isBefore start clock then ([toast_error ''Cannot book in the past''], False)
              else ([], True))
      | _ \<Rightarrow> ([toast_error ''Please select start and end time''], False))"

text \<open>There are four steps, so \<^verbatim>\<open>steps.length - 1\<close> is 3.\<close>

definition handleNext :: "instant \<Rightarrow> BookingFlow \<Rightarrow> toast list \<times> BookingFlow" where
  "handleNext clock st =
     (let (ts, ok) = (if currentStep st = 0 then validateTimeSelection clock st else ([], True))
      in if currentStep st = 0 \<and> ok = False then (ts, st)
         else if currentStep st = 1 \<and> vehicle_type (vehicleInfo st) = []
         then (ts @ [toast_error ''Please select your vehicle type''], st)
         else if currentStep st < 3 then (ts, st\<lparr>currentStep := currentStep st + 1\<rparr>)
         else (ts, st))"

subsection \<open>submitBooking\<close>

text \<open>
  The body of the \<^verbatim>\<open>try\<close> block waits 1.5 seconds and then builds the booking from the
  component's own state; it sends no request and reads no other booking. Its only operation
  that can throw is \<^verbatim>\<open>toISOString\<close> on an invalid date, which the \<^verbatim>\<open>catch\<close> block
  reports as a generic failure: the message of that error does not contain
  \<^verbatim>\<open>double booking\<close>, so the slot-taken branch is never entered.
\<close>

definition submitBooking :: "World \<Rightarrow> Charger \<Rightarrow> User option \<Rightarrow> BookingFlow \<Rightarrow> Submitted" where
  "submitBooking w ch user st =
     (case validateTimeSelection (now w) st of
        (ts, False) \<Rightarrow> \<lparr> toasts = ts, created = None, flow = st \<rparr>
      | (ts, True) \<Rightarrow>
          (case priceEstimate st of
             None \<Rightarrow> \<lparr> toasts = ts, created = None, flow = st \<rparr>
           | Some estimate \<Rightarrow>
               (case (startTime st, endTime st) of
                  (HHmm sh sm, HHmm eh em) \<Rightarrow>
                    (let start = dateAt (selectedDate st) sh sm;
                         end = dateAt (selectedDate st) eh em;
                         mockBooking =
                           \<lparr> id_booking = \<lfloor>random_id w * 10000\<rfloor>,
                             charger_id = id_charger ch,
                             renter_id = (case user of None \<Rightarrow> 0 | Some u \<Rightarrow> id_user u),
                             start_time = start,
                             end_time = end,
                             status = (if auto_accept_bookings ch then confirmed else pending),
                             payment_status = payment_pending,
                             booking_code = ''BK'' @ random_text 8 (random_booking_code w),
                             total_amount = total_pe estimate,
                             paid_amount = 0,
                             currency = ''INR'',
                             qr_code_url = generateQRCode (''BK'' @ random_text 8 (random_qr_code w)),
                             access_code = random_text 6 (random_access_code w),
                             vehicle_info = vehicleInfo st,
                             special_instructions = specialInstructions st,
                             created_at = now_created w,
                             updated_at = now_updated w,
                             charger = ch \<rparr>
                     in \<lparr> toasts = ts @ [toast_success ''Booking created successfully!''],
                          created = Some mockBooking,
                          flow = st\<lparr> isLoading := False,
                                     completedBooking := Some mockBooking,
                                     currentStep := 3 \<rparr> \<rparr>)
                | _ \<Rightarrow>
                    \<lparr> toasts = ts @ [toast_error ''Failed to create booking. Please try again.''],
                      created = None,
                      flow = st\<lparr> isLoading := False \<rparr> \<rparr>)))"

subsection \<open>The details page (pages/ChargerDetailsPage.tsx)\<close>

text \<open>The \<^verbatim>\<open>Book Now\<close> button, which opens the booking flow, is disabled by the charger's
  current status.\<close>

definition bookNowDisabled :: "Charger \<Rightarrow> bool" where
  "bookNowDisabled ch = (current_status ch \<noteq> available)"

subsection \<open>Initial state and sample data\<close>

text \<open>The initial React state of the component, opened at the given clock reading.\<close>

definition initialFlow :: "instant \<Rightarrow> BookingFlow" where
  "initialFlow clock =
     \<lparr> currentStep = 0, isLoading = False, selectedDate = clock,
       startTime = NoTime, endTime = NoTime,
       vehicleInfo = \<lparr> vehicle_type = [], batteryCapacity = [], currentCharge = [],
                       targetCharge = [] \<rparr>,
       specialInstructions = [], priceEstimate = None, completedBooking = None \<rparr>"

text \<open>
  A pricing rule at 50 per hour with booking fee 10 and sessions of 30 to 480 minutes; a
  peak window from 09:00 to 12:00 with multiplier 1.2; no weekend surcharge.
\<close>

definition rule_hourly :: ChargerPricing where
  "rule_hourly =
     \<lparr> pricing_type = per_hour, price_value = 50,
       min_session_minutes = 30, max_session_minutes = 480,
       peak_hours_start = HHmm 9 0, peak_hours_end = HHmm 12 0,
       peak_price_multiplier = 6 / 5, weekend_price_multiplier = 1,
       booking_fee = 10, overstay_fee_per_hour = 100, late_cancellation_fee = 0,
       advance_booking_hours = 0, same_day_booking = True \<rparr>"

definition charger_R1 :: Charger where
  "charger_R1 =
     \<lparr> id_charger = 1, max_power_kw = 22, current_status = available, is_active = True,
       auto_accept_bookings = False, pricing = Some rule_hourly \<rparr>"

text \<open>08:00 local time on day 20000 after the epoch (Friday, 4 October 2024).\<close>

definition opened_at :: instant where
  "opened_at = 20000 * ms_per_day + 8 * 60 * ms_per_minute"

definition world_A :: World where
  "world_A =
     \<lparr> now = opened_at, random_id = 1234 / 10000,
       random_booking_code = [10, 1, 35, 7, 20, 3, 0, 11, 5],
       random_qr_code = [4, 30, 2, 9, 16, 8, 1, 27],
       random_access_code = [33, 6, 12, 0, 25, 19, 2],
       now_created = opened_at, now_updated = opened_at \<rparr>"

definition world_B :: World where
  "world_B =
     \<lparr> now = opened_at, random_id = 5678 / 10000,
       random_booking_code = [2, 14, 9, 31, 0, 6, 22, 18],
       random_qr_code = [7, 7, 21, 3, 13, 29, 5, 1],
       random_access_code = [1, 17, 34, 8, 4, 26],
       now_created = opened_at, now_updated = opened_at \<rparr>"

definition renter_A :: User where
  "renter_A = \<lparr> id_user = 7 \<rparr>"

definition renter_B :: User where
  "renter_B = \<lparr> id_user = 8 \<rparr>"

text \<open>
  From the time step to the payment step, where the button that calls \<open>submitBooking\<close> is
  shown: \<^verbatim>\<open>Next\<close>, pick a vehicle, \<^verbatim>\<open>Next\<close>.
\<close>

definition to_payment_step :: "Charger \<Rightarrow> instant \<Rightarrow> VehicleInfo \<Rightarrow> BookingFlow \<Rightarrow> BookingFlow" where
  "to_payment_step ch clock v st =
     snd (handleNext clock (snd (setVehicleInfo ch v (snd (handleNext clock st)))))"

definition nexon :: VehicleInfo where
  "nexon = \<lparr> vehicle_type = ''Tata Nexon EV'', batteryCapacity = ''30'',
             currentCharge = ''20'', targetCharge = ''80'' \<rparr>"

text \<open>A renter selects 10:00 to 11:30, start first, and goes to the payment step.\<close>

definition flow_10_to_1130 :: BookingFlow where
  "flow_10_to_1130 =
     to_payment_step charger_R1 opened_at nexon
       (snd (setEndTime charger_R1 (HHmm 11 30)
         (snd (setStartTime charger_R1 (HHmm 10 0) (initialFlow opened_at)))))"

text \<open>A second renter selects 11:00 to 12:00 on the same charger and day and does the same.\<close>

definition flow_11_to_12 :: BookingFlow where
  "flow_11_to_12 =
     to_payment_step charger_R1 opened_at nexon
       (snd (setEndTime charger_R1 (HHmm 12 0)
         (snd (setStartTime charger_R1 (HHmm 11 0) (initialFlow opened_at)))))"

text \<open>
  A renter picks 10:00 to 11:00, then moves the end to 20:00 (ten hours, above the rule's
  eight), and goes to the payment step.
\<close>

definition flow_10_to_11 :: BookingFlow where
  "flow_10_to_11 =
     snd (setEndTime charger_R1 (HHmm 11 0)
       (snd (setStartTime charger_R1 (HHmm 10 0) (initialFlow opened_at))))"

definition flow_end_moved :: BookingFlow where
  "flow_end_moved = snd (setEndTime charger_R1 (HHmm 20 0) flow_10_to_11)"

definition flow_at_payment :: BookingFlow where
  "flow_at_payment = to_payment_step charger_R1 opened_at nexon flow_end_moved"

text \<open>The pricing of the details page's sample charger (per kWh), and a flat-rate rule.\<close>

definition rule_kwh :: ChargerPricing where
  "rule_kwh =
     \<lparr> pricing_type = per_kwh, price_value = 12,
       min_session_minutes = 30, max_session_minutes = 240,
       peak_hours_start = NoTime, peak_hours_end = NoTime,
       peak_price_multiplier = 6 / 5, weekend_price_multiplier = 1,
       booking_fee = 10, overstay_fee_per_hour = 0, late_cancellation_fee = 0,
       advance_booking_hours = 0, same_day_booking = True \<rparr>"

definition rule_flat :: ChargerPricing where
  "rule_flat = rule_kwh \<lparr> pricing_type := flat_rate, price_value := 200 \<rparr>"

definition charger_kwh :: Charger where
  "charger_kwh = charger_R1 \<lparr> id_charger := 2, auto_accept_bookings := True,
                              pricing := Some rule_kwh \<rparr>"

definition charger_flat :: Charger where
  "charger_flat = charger_R1 \<lparr> id_charger := 3, pricing := Some rule_flat \<rparr>"

definition selection_10_to_1130 :: BookingFlow where
  "selection_10_to_1130 =
     (initialFlow opened_at) \<lparr> startTime := HHmm 10 0, endTime := HHmm 11 30 \<rparr>"

subsection \<open>Well-formed clock times\<close>

text \<open>A time input holds a clock time of the day: hours below 24, minutes below 60.\<close>

fun well_formed_time :: "time_input \<Rightarrow> bool" where
  "well_formed_time NoTime = True"
| "well_formed_time (HHmm h m) = (h < 24 \<and> m < 60)"

subsection \<open>The pricing rule of the specification, for comparison\<close>

text \<open>
  Section 4.3 of the specification prices the per-duration mode as duration times unit
  price, adjusted by the peak multiplier if the interval overlaps the rule's peak window and
  by the weekend multiplier if it falls on a weekend day, the higher of the two if both apply.
  It is written out here on the minutes of the day \<open>s\<close> to \<open>e\<close> to be compared with what
  \<open>calculatePriceEstimate\<close> computes. Day 0 of the time line is a Thursday.
\<close>

definition spec_overlaps_peak :: "ChargerPricing \<Rightarrow> nat \<Rightarrow> nat \<Rightarrow> bool" where
  "spec_overlaps_peak p s e =
     (case (peak_hours_start p, peak_hours_end p) of
        (HHmm h1 m1, HHmm h2 m2) \<Rightarrow> s < h2 * 60 + m2 \<and> h1 * 60 + m1 < e
      | _ \<Rightarrow> False)"

definition spec_is_weekend :: "instant \<Rightarrow> bool" where
  "spec_is_weekend d =
     (let weekday = (d div ms_per_day + 4) mod 7 in weekday = 0 \<or> weekday = 6)"

definition spec_per_duration_subtotal :: "ChargerPricing \<Rightarrow> instant \<Rightarrow> nat \<Rightarrow> nat \<Rightarrow> number" where
  "spec_per_duration_subtotal p d s e =
     (let base = of_nat (e - s) / 60 * price_value p
      in if spec_overlaps_peak p s e \<and> spec_is_weekend d
         then base * max (peak_price_multiplier p) (weekend_price_multiplier p)
         else if spec_overlaps_peak p s e then base * peak_price_multiplier p
         else if spec_is_weekend d then base * weekend_price_multiplier p
         else base)"

section \<open>The handlers under the runtime's time zone\<close>

text \<open>
  The definitions above read a clock time at a constant offset from UTC. The runtime reads
  \<^verbatim>\<open>new Date("yyyy-MM-ddTHH:mm")\<close> as local time of its time zone, which may change its
  offset during a day. Here the zone is explicit: instants are milliseconds of UTC, a zone
  gives the wall-clock reading of an instant (what \<^verbatim>\<open>format\<close> prints) and the instant
  that a wall-clock reading is parsed to. ECMAScript reads a wall-clock time that a
  spring-forward transition skips with the offset before the transition.
\<close>

record TimeZone =
  localOf :: "instant \<Rightarrow> int"
  instantOf :: "int \<Rightarrow> instant"

text \<open>A zone that keeps one offset, such as India's (plus 330 minutes).\<close>

definition fixed_zone :: "int \<Rightarrow> TimeZone" where
  "fixed_zone offset = \<lparr> localOf = (\<lambda>t. t + offset), instantOf = (\<lambda>reading. reading - offset) \<rparr>"

text \<open>
  A zone five hours behind UTC that moves to four hours behind at 02:00 wall-clock time of
  day 19792 (Sunday, 10 March 2024), that is at 07:00 UTC: the wall clock jumps from 02:00 to
  03:00. Readings before 03:00 of that day are parsed with the old offset, so the skipped
  02:30 is parsed to 07:30 UTC, which the wall clock shows as 03:30.
\<close>

definition zone_spring_forward :: TimeZone where
  "zone_spring_forward =
     \<lparr> localOf = (\<lambda>t. if t < 19792 * ms_per_day + 7 * 60 * ms_per_minute
                       then t - 5 * 60 * ms_per_minute else t - 4 * 60 * ms_per_minute),
       instantOf = (\<lambda>reading. if reading < 19792 * ms_per_day + 3 * 60 * ms_per_minute
                               then reading + 5 * 60 * ms_per_minute
                               else reading + 4 * 60 * ms_per_minute) \<rparr>"

text \<open>
  The wall-clock reading that \<^verbatim>\<open>`${format(selectedDate, 'yyyy-MM-dd')}T${time}`\<close> denotes,
  and the \<^verbatim>\<open>Date\<close> it is parsed to.
\<close>

definition localTime :: "TimeZone \<Rightarrow> instant \<Rightarrow> nat \<Rightarrow> nat \<Rightarrow> int" where
  "localTime z d h m =
     (localOf z d div ms_per_day) * ms_per_day + (int h * 60 + int m) * ms_per_minute"

definition dateAt_tz :: "TimeZone \<Rightarrow> instant \<Rightarrow> nat \<Rightarrow> nat \<Rightarrow> instant" where
  "dateAt_tz z d h m = instantOf z (localTime z d h m)"

text \<open>The wall-clock reading is parsed with the given offset and shown again as itself.\<close>

definition read_with_offset :: "TimeZone \<Rightarrow> int \<Rightarrow> int \<Rightarrow> bool" where
  "read_with_offset z offset reading =
     (instantOf z reading = reading - offset \<and> localOf z (reading - offset) = reading)"

definition calculatePriceEstimate_tz :: "TimeZone \<Rightarrow> Charger \<Rightarrow> BookingFlow \<Rightarrow> toast list \<times> PriceEstimate option" where
  "calculatePriceEstimate_tz z ch st =
     (case (startTime st, endTime st, pricing ch) of
        (HHmm sh sm, HHmm eh em, Some p) \<Rightarrow>
          (let start = dateAt_tz z (selectedDate st) sh sm;
               end = dateAt_tz z (selectedDate st) eh em
           in if end \<le> start then ([toast_error ''End time must be after start time''], None)
              else
                (let durationHours = of_int (differenceInMinutes end start) / 60;
                     minDuration = or_default (min_session_minutes p) 30 / 60;
                     maxDuration = or_default (max_session_minutes p) 480 / 60
                 in if durationHours < minDuration then ([toast_error_min_duration minDuration], None)
                    else if durationHours > maxDuration then ([toast_error_max_duration maxDuration], None)
                    else
                      (let (subtotal, energyEstimate) =
                             (if pricing_type p = per_hour
                              then (durationHours * price_value p,
                                    durationHours * max_power_kw ch * (4 / 5))
                              else if pricing_type p = per_kwh
                              then (let energy = durationHours * max_power_kw ch * (4 / 5)
                                    in (energy * price_value p, energy))
                              else (price_value p,
                                    durationHours * max_power_kw ch * (4 / 5)));
                           bookingFee = or_default (booking_fee p) 0;
                           platformFeeRate = 15 / 100;
                           platformFee = subtotal * platformFeeRate;
                           total = subtotal + bookingFee + platformFee
                       in ([], Some \<lparr> duration_hours = durationHours,
                                      energy_estimate_kwh = energyEstimate,
                                      subtotal = subtotal,
                                      platform_fee = platformFee,
                                      booking_fee_pe = bookingFee,
                                      total_pe = total,
                                      pricing_type_pe = pricing_type p,
                                      unit_price = price_value p \<rparr>))))
      | _ \<Rightarrow> ([], None))"

definition validateTimeSelection_tz :: "TimeZone \<Rightarrow> instant \<Rightarrow> BookingFlow \<Rightarrow> toast list \<times> bool" where
  "validateTimeSelection_tz z clock st =
     (case (startTime st, endTime st) of
        (HHmm sh sm, HHmm eh em) \<Rightarrow>
          (let start = dateAt_tz z (selectedDate st) sh sm;
               end = dateAt_tz z (selectedDate st) eh em
           in if end \<le> start then ([toast_error ''End time must be after start time''], False)
              else if isBefore start clock then ([toast_error ''Cannot book in the past''], False)
              else ([], True))
      | _ \<Rightarrow> ([toast_error ''Please select start and end time''], False))"

definition submitBooking_tz :: "TimeZone \<Rightarrow> World \<Rightarrow> Charger \<Rightarrow> User option \<Rightarrow> BookingFlow \<Rightarrow> Submitted" where
  "submitBooking_tz z w ch user st =
     (case validateTimeSelection_tz z (now w) st of
        (ts, False) \<Rightarrow> \<lparr> toasts = ts, created = None, flow = st \<rparr>
      | (ts, True) \<Rightarrow>
          (case priceEstimate st of
             None \<Rightarrow> \<lparr> toasts = ts, created = None, flow = st \<rparr>
           | Some estimate \<Rightarrow>
               (case (startTime st, endTime st) of
                  (HHmm sh sm, HHmm eh em) \<Rightarrow>
                    (let start = dateAt_tz z (selectedDate st) sh sm;
                         end = dateAt_tz z (selectedDate st) eh em;
                         mockBooking =
                           \<lparr> id_booking = \<lfloor>random_id w * 10000\<rfloor>,
                             charger_id = id_charger ch,
                             renter_id = (case user of None \<Rightarrow> 0 | Some u \<Rightarrow> id_user u),
                             start_time = start,
                             end_time = end,
                             status = (if auto_accept_bookings ch then confirmed else pending),
                             payment_status = payment_pending,
                             booking_code = ''BK'' @ random_text 8 (random_booking_code w),
                             total_amount = total_pe estimate,
                             paid_amount = 0,
                             currency = ''INR'',
                             qr_code_url = generateQRCode (''BK'' @ random_text 8 (random_qr_code w)),
                             access_code = random_text 6 (random_access_code w),
                             vehicle_info = vehicleInfo st,
                             special_instructions = specialInstructions st,
                             created_at = now_created w,
                             updated_at = now_updated w,
                             charger = ch \<rparr>
                     in \<lparr> toasts = ts @ [toast_success ''Booking created successfully!''],
                          created = Some mockBooking,
                          flow = st\<lparr> isLoading := False,
                                     completedBooking := Some mockBooking,
                                     currentStep := 3 \<rparr> \<rparr>)
                | _ \<Rightarrow>
                    \<lparr> toasts = ts @ [toast_error ''Failed to create booking. Please try again.''],
                      created = None,
                      flow = st\<lparr> isLoading := False \<rparr> \<rparr>)))"

text \<open>
  The component is opened at 00:30 wall-clock time of the spring-forward day (05:30 UTC).
  The renter enters start 03:00 and end 02:30; the estimate that
  \<open>calculatePriceEstimate_tz\<close> computes for the selection is stored, as
  \<^verbatim>\<open>setPriceEstimate\<close> does.
\<close>

definition spring_opened_at :: instant where
  "spring_opened_at = 19792 * ms_per_day + (5 * 60 + 30) * ms_per_minute"

definition world_spring :: World where
  "world_spring = world_A \<lparr> now := spring_opened_at, now_created := spring_opened_at,
                            now_updated := spring_opened_at \<rparr>"

definition spring_selection :: BookingFlow where
  "spring_selection =
     (initialFlow spring_opened_at) \<lparr> startTime := HHmm 3 0, endTime := HHmm 2 30 \<rparr>"

definition spring_flow :: BookingFlow where
  "spring_flow =
     spring_selection \<lparr> priceEstimate :=
       snd (calculatePriceEstimate_tz zone_spring_forward charger_R1 spring_selection) \<rparr>"

text \<open>
  India's zone, the selection 11:30 to 10:00, and a clock at 05:30 Indian time of day 20000.
\<close>

definition zone_india :: TimeZone where
  "zone_india = fixed_zone (330 * ms_per_minute)"

definition world_india :: World where
  "world_india = world_A \<lparr> now := 20000 * ms_per_day \<rparr>"

definition reversed_selection :: BookingFlow where
  "reversed_selection =
     (initialFlow opened_at) \<lparr> startTime := HHmm 11 30, endTime := HHmm 10 0 \<rparr>"

section \<open>Helper lemmas\<close>

text \<open>
  Two dates built on the same day compare as their clock times do, and their difference in
  minutes is the difference of the clock times.
\<close>

lemma dateAt_le_iff:
  "dateAt d eh em \<le> dateAt d sh sm \<longleftrightarrow> eh * 60 + em \<le> sh * 60 + sm"
  unfolding dateAt_def ms_per_minute_def by auto

lemma dateAt_diff:
  "dateAt d eh em - dateAt d sh sm = (int (eh * 60 + em) - int (sh * 60 + sm)) * ms_per_minute"
  unfolding dateAt_def by (simp add: algebra_simps)

lemma differenceInMinutes_dateAt:
  "sh * 60 + sm \<le> eh * 60 + em \<Longrightarrow>
   differenceInMinutes (dateAt d eh em) (dateAt d sh sm) = int (eh * 60 + em) - int (sh * 60 + sm)"
  unfolding differenceInMinutes_def dateAt_diff Let_def by (simp add: ms_per_minute_def)

text \<open>What an estimate that \<open>calculatePriceEstimate\<close> computes looks like.\<close>

lemma calculatePriceEstimate_Some:
  assumes "snd (calculatePriceEstimate ch st) = Some e"
  shows "\<exists>sh sm eh em p.
           startTime st = HHmm sh sm \<and> endTime st = HHmm eh em \<and> pricing ch = Some p \<and>
           sh * 60 + sm < eh * 60 + em \<and>
           duration_hours e = of_int (int (eh * 60 + em) - int (sh * 60 + sm)) / 60 \<and>
           or_default (min_session_minutes p) 30 / 60 \<le> duration_hours e \<and>
           duration_hours e \<le> or_default (max_session_minutes p) 480 / 60 \<and>
           energy_estimate_kwh e = duration_hours e * max_power_kw ch * (4 / 5) \<and>
           subtotal e =
             (case pricing_type p of
                per_hour \<Rightarrow> duration_hours e * price_value p
              | per_kwh \<Rightarrow> energy_estimate_kwh e * price_value p
              | flat_rate \<Rightarrow> price_value p) \<and>
           booking_fee_pe e = booking_fee p \<and>
           platform_fee e = subtotal e * (15 / 100) \<and>
           total_pe e = subtotal e + booking_fee_pe e + platform_fee e \<and>
           pricing_type_pe e = pricing_type p \<and> unit_price e = price_value p"
proof -
  from assms obtain sh sm eh em p where
    sel: "startTime st = HHmm sh sm" "endTime st = HHmm eh em" "pricing ch = Some p"
    by (auto simp: calculatePriceEstimate_def split: time_input.splits option.splits)
  have lt: "sh * 60 + sm < eh * 60 + em"
    using assms sel
    by (auto simp: calculatePriceEstimate_def Let_def dateAt_le_iff split: if_splits)
  then have dm: "differenceInMinutes (dateAt (selectedDate st) eh em) (dateAt (selectedDate st) sh sm)
      = int (eh * 60 + em) - int (sh * 60 + sm)"
    by (simp add: differenceInMinutes_dateAt)
  have nle: "\<not> dateAt (selectedDate st) eh em \<le> dateAt (selectedDate st) sh sm"
    using lt by (simp add: dateAt_le_iff)
  show ?thesis
    using assms sel lt
    apply (simp only: calculatePriceEstimate_def sel prod.case time_input.case option.case Let_def nle if_False dm)
    apply (cases "pricing_type p")
    apply (auto simp: or_default_def split: if_splits)
    done
qed

text \<open>The sample flows, evaluated.\<close>

lemmas sample_defs =
  initialFlow_def rule_hourly_def charger_R1_def opened_at_def world_A_def world_B_def
  renter_A_def renter_B_def nexon_def rule_kwh_def rule_flat_def charger_kwh_def
  charger_flat_def selection_10_to_1130_def

lemmas handler_defs =
  calculatePriceEstimate_def run_calculatePriceEstimate_def priceEffect_def setStartTime_def
  setEndTime_def setVehicleInfo_def validateTimeSelection_def handleNext_def submitBooking_def
  dateAt_def differenceInMinutes_def isBefore_def or_default_def ms_per_day_def
  ms_per_minute_def Let_def

lemma flow_10_to_1130_eval:
  "flow_10_to_1130 =
     (initialFlow opened_at)
       \<lparr> startTime := HHmm 10 0, endTime := HHmm 11 30,
         priceEstimate := Some \<lparr> duration_hours = 3 / 2, energy_estimate_kwh = 132 / 5,
           subtotal = 75, platform_fee = 45 / 4, booking_fee_pe = 10, total_pe = 385 / 4,
           pricing_type_pe = per_hour, unit_price = 50 \<rparr>,
         vehicleInfo := nexon, currentStep := 2 \<rparr>"
  by (simp add: flow_10_to_1130_def to_payment_step_def sample_defs handler_defs)

lemma flow_11_to_12_eval:
  "flow_11_to_12 =
     (initialFlow opened_at)
       \<lparr> startTime := HHmm 11 0, endTime := HHmm 12 0,
         priceEstimate := Some \<lparr> duration_hours = 1, energy_estimate_kwh = 88 / 5,
           subtotal = 50, platform_fee = 15 / 2, booking_fee_pe = 10, total_pe = 135 / 2,
           pricing_type_pe = per_hour, unit_price = 50 \<rparr>,
         vehicleInfo := nexon, currentStep := 2 \<rparr>"
  by (simp add: flow_11_to_12_def to_payment_step_def sample_defs handler_defs)

lemma flow_10_to_11_eval:
  "flow_10_to_11 =
     (initialFlow opened_at)
       \<lparr> startTime := HHmm 10 0, endTime := HHmm 11 0,
         priceEstimate := Some \<lparr> duration_hours = 1, energy_estimate_kwh = 88 / 5,
           subtotal = 50, platform_fee = 15 / 2, booking_fee_pe = 10, total_pe = 135 / 2,
           pricing_type_pe = per_hour, unit_price = 50 \<rparr> \<rparr>"
  by (simp add: flow_10_to_11_def sample_defs handler_defs)

lemma setEndTime_20_eval:
  "setEndTime charger_R1 (HHmm 20 0) flow_10_to_11 =
     ([toast_error_max_duration 8], flow_10_to_11 \<lparr> endTime := HHmm 20 0 \<rparr>)"
  by (simp add: flow_10_to_11_eval sample_defs handler_defs)

lemma flow_at_payment_eval:
  "flow_at_payment =
     flow_10_to_11 \<lparr> endTime := HHmm 20 0, vehicleInfo := nexon, currentStep := 2 \<rparr>"
  by (simp add: flow_at_payment_def to_payment_step_def flow_end_moved_def setEndTime_20_eval
      flow_10_to_11_eval sample_defs handler_defs)

lemma calculatePriceEstimate_valid:
  assumes "startTime st = HHmm sh sm" "endTime st = HHmm eh em" "pricing ch = Some p"
    and "sh * 60 + sm < eh * 60 + em"
    and "or_default (min_session_minutes p) 30 \<le> of_nat (eh * 60 + em - (sh * 60 + sm))"
    and "of_nat (eh * 60 + em - (sh * 60 + sm)) \<le> or_default (max_session_minutes p) 480"
  shows "\<exists>e. calculatePriceEstimate ch st = ([], Some e)"
proof -
  have nle: "\<not> dateAt (selectedDate st) eh em \<le> dateAt (selectedDate st) sh sm"
    using assms(4) by (simp add: dateAt_le_iff)
  have dm: "differenceInMinutes (dateAt (selectedDate st) eh em) (dateAt (selectedDate st) sh sm)
      = int (eh * 60 + em) - int (sh * 60 + sm)"
    using assms(4) by (simp add: differenceInMinutes_dateAt)
  have conv: "rat_of_int (int (eh * 60 + em) - int (sh * 60 + sm)) = of_nat (eh * 60 + em - (sh * 60 + sm))"
    using assms(4) by (simp add: of_nat_diff)
  show ?thesis
    using assms(5,6)
    by (simp only: calculatePriceEstimate_def assms(1-3) prod.case time_input.case option.case
          Let_def nle if_False dm conv)
       (simp add: split_def)
qed

lemma selection_minutes:
  assumes "snd (calculatePriceEstimate ch st) = Some e"
    and "startTime st = HHmm sh sm" and "endTime st = HHmm eh em"
  shows "duration_hours e =
           of_int (differenceInMinutes (dateAt (selectedDate st) eh em)
                     (dateAt (selectedDate st) sh sm)) / 60"
proof -
  from calculatePriceEstimate_Some[OF assms(1)] obtain sh' sm' eh' em' where
    f: "startTime st = HHmm sh' sm'" "endTime st = HHmm eh' em'"
       "sh' * 60 + sm' < eh' * 60 + em'"
       "duration_hours e = of_int (int (eh' * 60 + em') - int (sh' * 60 + sm')) / 60"
    by blast
  from f(1,2) assms(2,3) have eq: "sh' = sh" "sm' = sm" "eh' = eh" "em' = em" by simp_all
  from f(3) have "differenceInMinutes (dateAt (selectedDate st) eh' em')
      (dateAt (selectedDate st) sh' sm') = int (eh' * 60 + em') - int (sh' * 60 + sm')"
    by (simp add: differenceInMinutes_dateAt)
  with f(4) show ?thesis unfolding eq by simp
qed

lemma calculatePriceEstimate_cong:
  assumes "startTime st1 = startTime st2" and "endTime st1 = endTime st2"
    and "pricing ch1 = pricing ch2" and "max_power_kw ch1 = max_power_kw ch2"
  shows "calculatePriceEstimate ch1 st1 = calculatePriceEstimate ch2 st2"
proof (cases "startTime st2")
  case NoTime
  then show ?thesis using assms by (simp add: calculatePriceEstimate_def)
next
  case s: (HHmm sh sm)
  show ?thesis
  proof (cases "endTime st2")
    case NoTime
    then show ?thesis using assms s by (simp add: calculatePriceEstimate_def)
  next
    case e: (HHmm eh em)
    show ?thesis
    proof (cases "pricing ch2")
      case None
      then show ?thesis using assms s e by (simp add: calculatePriceEstimate_def)
    next
      case (Some p)
      show ?thesis
      proof (cases "eh * 60 + em \<le> sh * 60 + sm")
        case True
        then show ?thesis
          using assms s e Some by (simp add: calculatePriceEstimate_def dateAt_le_iff)
      next
        case False
        then have "sh * 60 + sm \<le> eh * 60 + em" by simp
        then have "differenceInMinutes (dateAt d eh em) (dateAt d sh sm)
            = int (eh * 60 + em) - int (sh * 60 + sm)" for d
          by (rule differenceInMinutes_dateAt)
        then show ?thesis
          using assms s e Some False
          by (simp add: calculatePriceEstimate_def dateAt_le_iff Let_def)
      qed
    qed
  qed
qed

lemma validateTimeSelection_True:
  "snd (validateTimeSelection clock st) = True \<longleftrightarrow>
     (\<exists>sh sm eh em. startTime st = HHmm sh sm \<and> endTime st = HHmm eh em \<and>
        sh * 60 + sm < eh * 60 + em \<and> clock \<le> dateAt (selectedDate st) sh sm)"
  by (auto simp: validateTimeSelection_def Let_def dateAt_le_iff isBefore_def
      split: time_input.splits)

text \<open>
  When \<open>submitBooking\<close> creates a booking and what the booking holds; the selections it
  accepts; the part of the state it reads.
\<close>

lemma submitBooking_created:
  assumes "created (submitBooking w ch user st) = Some b"
  shows "\<exists>sh sm eh em estimate.
           startTime st = HHmm sh sm \<and> endTime st = HHmm eh em \<and>
           priceEstimate st = Some estimate \<and>
           sh * 60 + sm < eh * 60 + em \<and> now w \<le> dateAt (selectedDate st) sh sm \<and>
           id_booking b = \<lfloor>random_id w * 10000\<rfloor> \<and>
           charger_id b = id_charger ch \<and>
           renter_id b = (case user of None \<Rightarrow> 0 | Some u \<Rightarrow> id_user u) \<and>
           start_time b = dateAt (selectedDate st) sh sm \<and>
           end_time b = dateAt (selectedDate st) eh em \<and>
           status b = (if auto_accept_bookings ch then confirmed else pending) \<and>
           payment_status b = payment_pending \<and>
           booking_code b = ''BK'' @ random_text 8 (random_booking_code w) \<and>
           total_amount b = total_pe estimate \<and>
           paid_amount b = 0 \<and>
           currency b = ''INR'' \<and>
           qr_code_url b = generateQRCode (''BK'' @ random_text 8 (random_qr_code w)) \<and>
           access_code b = random_text 6 (random_access_code w) \<and>
           vehicle_info b = vehicleInfo st \<and>
           special_instructions b = specialInstructions st \<and>
           created_at b = now_created w \<and> updated_at b = now_updated w \<and>
           charger b = ch"
proof -
  obtain ts ok where v: "validateTimeSelection (now w) st = (ts, ok)"
    by (cases "validateTimeSelection (now w) st")
  have ok: "ok" using assms v by (cases ok) (simp_all add: submitBooking_def)
  then have "snd (validateTimeSelection (now w) st) = True" using v by simp
  then obtain sh sm eh em where
    sel: "startTime st = HHmm sh sm" "endTime st = HHmm eh em"
         "sh * 60 + sm < eh * 60 + em" "now w \<le> dateAt (selectedDate st) sh sm"
    unfolding validateTimeSelection_True by blast
  obtain estimate where est: "priceEstimate st = Some estimate"
    using assms v ok by (cases "priceEstimate st") (simp_all add: submitBooking_def)
  show ?thesis
    using assms v ok sel est
    by (auto simp: submitBooking_def Let_def)
qed

lemma submitBooking_accepts:
  assumes "startTime st = HHmm sh sm" and "endTime st = HHmm eh em"
    and "priceEstimate st = Some estimate"
    and "sh * 60 + sm < eh * 60 + em" and "now w \<le> dateAt (selectedDate st) sh sm"
  shows "\<exists>b. created (submitBooking w ch user st) = Some b \<and>
           toasts (submitBooking w ch user st) = [toast_success ''Booking created successfully!'']"
proof -
  have "validateTimeSelection (now w) st = ([], True)"
    using assms by (simp add: validateTimeSelection_def Let_def dateAt_le_iff isBefore_def)
  then show ?thesis
    using assms by (simp add: submitBooking_def Let_def)
qed

lemma submitBooking_reads:
  assumes "selectedDate st' = selectedDate st" and "startTime st' = startTime st"
    and "endTime st' = endTime st" and "priceEstimate st' = priceEstimate st"
    and "vehicleInfo st' = vehicleInfo st" and "specialInstructions st' = specialInstructions st"
  shows "created (submitBooking w ch user st') = created (submitBooking w ch user st)"
    and "toasts (submitBooking w ch user st') = toasts (submitBooking w ch user st)"
proof -
  have v: "validateTimeSelection (now w) st' = validateTimeSelection (now w) st"
    by (simp only: validateTimeSelection_def assms)
  show "created (submitBooking w ch user st') = created (submitBooking w ch user st)"
    using assms unfolding submitBooking_def v
    by (auto simp: Let_def split: prod.splits bool.splits option.splits time_input.splits)
  show "toasts (submitBooking w ch user st') = toasts (submitBooking w ch user st)"
    using assms unfolding submitBooking_def v
    by (auto simp: Let_def split: prod.splits bool.splits option.splits time_input.splits)
qed

lemma submitBooking_flow_reads:
  "selectedDate (flow (submitBooking w ch user st)) = selectedDate st \<and>
   startTime (flow (submitBooking w ch user st)) = startTime st \<and>
   endTime (flow (submitBooking w ch user st)) = endTime st \<and>
   priceEstimate (flow (submitBooking w ch user st)) = priceEstimate st \<and>
   vehicleInfo (flow (submitBooking w ch user st)) = vehicleInfo st \<and>
   specialInstructions (flow (submitBooking w ch user st)) = specialInstructions st"
  by (auto simp: submitBooking_def Let_def split: prod.splits bool.splits option.splits time_input.splits)

lemma submitBooking_value:
  assumes "startTime st = HHmm sh sm" and "endTime st = HHmm eh em"
    and "priceEstimate st = Some estimate"
    and "sh * 60 + sm < eh * 60 + em" and "now w \<le> dateAt (selectedDate st) sh sm"
  shows "created (submitBooking w ch user st) =
     Some \<lparr> id_booking = \<lfloor>random_id w * 10000\<rfloor>,
            charger_id = id_charger ch,
            renter_id = (case user of None \<Rightarrow> 0 | Some u \<Rightarrow> id_user u),
            start_time = dateAt (selectedDate st) sh sm,
            end_time = dateAt (selectedDate st) eh em,
            status = (if auto_accept_bookings ch then confirmed else pending),
            payment_status = payment_pending,
            booking_code = ''BK'' @ random_text 8 (random_booking_code w),
            total_amount = total_pe estimate,
            paid_amount = 0,
            currency = ''INR'',
            qr_code_url = generateQRCode (''BK'' @ random_text 8 (random_qr_code w)),
            access_code = random_text 6 (random_access_code w),
            vehicle_info = vehicleInfo st,
            special_instructions = specialInstructions st,
            created_at = now_created w,
            updated_at = now_updated w,
            charger = ch \<rparr>"
proof -
  have "validateTimeSelection (now w) st = ([], True)"
    using assms by (simp add: validateTimeSelection_def Let_def dateAt_le_iff isBefore_def)
  then show ?thesis
    using assms by (simp add: submitBooking_def Let_def)
qed

text \<open>
  With the zone fixed at offset 0 the handlers under a time zone are the handlers of the
  first section.
\<close>

lemma dateAt_tz_fixed_zone_0: "dateAt_tz (fixed_zone 0) d h m = dateAt d h m"
  by (simp add: dateAt_tz_def localTime_def fixed_zone_def dateAt_def)

lemma calculatePriceEstimate_tz_fixed_zone_0:
  "calculatePriceEstimate_tz (fixed_zone 0) ch st = calculatePriceEstimate ch st"
  by (simp only: calculatePriceEstimate_tz_def calculatePriceEstimate_def dateAt_tz_fixed_zone_0)

lemma validateTimeSelection_tz_fixed_zone_0:
  "validateTimeSelection_tz (fixed_zone 0) clock st = validateTimeSelection clock st"
  by (simp only: validateTimeSelection_tz_def validateTimeSelection_def dateAt_tz_fixed_zone_0)

lemma submitBooking_tz_fixed_zone_0:
  "submitBooking_tz (fixed_zone 0) w ch user st = submitBooking w ch user st"
  by (simp only: submitBooking_tz_def submitBooking_def dateAt_tz_fixed_zone_0
      validateTimeSelection_tz_fixed_zone_0)

text \<open>Two clock times of the selected day that are read with one offset.\<close>

lemma dateAt_tz_le_iff:
  assumes "read_with_offset z offset (localTime z d sh sm)"
    and "read_with_offset z offset (localTime z d eh em)"
  shows "dateAt_tz z d eh em \<le> dateAt_tz z d sh sm \<longleftrightarrow> eh * 60 + em \<le> sh * 60 + sm"
proof -
  have "dateAt_tz z d sh sm = localTime z d sh sm - offset"
    "dateAt_tz z d eh em = localTime z d eh em - offset"
    using assms by (simp_all add: dateAt_tz_def read_with_offset_def)
  then show ?thesis
    by (auto simp: localTime_def ms_per_minute_def)
qed

lemma localTime_day:
  assumes "h < 24" and "m < 60"
  shows "localTime z d h m div ms_per_day = localOf z d div ms_per_day"
proof -
  have "int h * 60 + int m < 1440" using assms by simp
  then have b: "0 \<le> (int h * 60 + int m) * 60000" "(int h * 60 + int m) * 60000 < 86400000"
    by simp_all
  have "((localOf z d div 86400000) * 86400000 + (int h * 60 + int m) * 60000) div 86400000
      = localOf z d div 86400000 + ((int h * 60 + int m) * 60000) div 86400000"
    by (simp add: div_plus_div_distrib_dvd_left)
  also have "((int h * 60 + int m) * 60000) div 86400000 = 0"
    using b by (simp only: div_pos_pos_trivial)
  finally show ?thesis by (simp add: localTime_def ms_per_day_def ms_per_minute_def)
qed

lemma localOf_dateAt_tz:
  assumes "read_with_offset z offset (localTime z d h m)"
  shows "localOf z (dateAt_tz z d h m) = localTime z d h m"
  using assms by (simp add: dateAt_tz_def read_with_offset_def)

lemma submitBooking_tz_created:
  assumes "created (submitBooking_tz z w ch user st) = Some b"
  shows "\<exists>sh sm eh em.
           startTime st = HHmm sh sm \<and> endTime st = HHmm eh em \<and>
           dateAt_tz z (selectedDate st) sh sm < dateAt_tz z (selectedDate st) eh em \<and>
           start_time b = dateAt_tz z (selectedDate st) sh sm \<and>
           end_time b = dateAt_tz z (selectedDate st) eh em"
proof -
  obtain ts ok where v: "validateTimeSelection_tz z (now w) st = (ts, ok)"
    by (cases "validateTimeSelection_tz z (now w) st")
  have ok: "ok" using assms v by (cases ok) (simp_all add: submitBooking_tz_def)
  from v ok obtain sh sm eh em where
    sel: "startTime st = HHmm sh sm" "endTime st = HHmm eh em"
         "dateAt_tz z (selectedDate st) sh sm < dateAt_tz z (selectedDate st) eh em"
    by (auto simp: validateTimeSelection_tz_def Let_def split: time_input.splits if_splits)
  obtain estimate where est: "priceEstimate st = Some estimate"
    using assms v ok by (cases "priceEstimate st") (simp_all add: submitBooking_tz_def)
  show ?thesis
    using assms v ok sel est
    by (auto simp: submitBooking_tz_def Let_def)
qed

section \<open>Claims\<close>

subsection \<open>C1\<close>

text \<open>
  C1, at a failing input. Two renters submit overlapping selections (10:00 to 11:30 and
  11:00 to 12:00) for the same charger and day. \<open>submitBooking\<close> reads no other booking, so
  whichever call runs first, each shows the success toast and creates its booking; neither
  gets the slot-taken error.
\<close>

theorem overlapping_submissions_both_created:
  "\<exists>bA bB.
     created (submitBooking world_A charger_R1 (Some renter_A) flow_10_to_1130) = Some bA \<and>
     created (submitBooking world_B charger_R1 (Some renter_B) flow_11_to_12) = Some bB \<and>
     toasts (submitBooking world_A charger_R1 (Some renter_A) flow_10_to_1130)
       = [toast_success ''Booking created successfully!''] \<and>
     toasts (submitBooking world_B charger_R1 (Some renter_B) flow_11_to_12)
       = [toast_success ''Booking created successfully!''] \<and>
     charger_id bA = 1 \<and> charger_id bB = 1 \<and> renter_id bA = 7 \<and> renter_id bB = 8 \<and>
     start_time bA < end_time bB \<and> start_time bB < end_time bA"
proof -
  have selA: "startTime flow_10_to_1130 = HHmm 10 0" "endTime flow_10_to_1130 = HHmm 11 30"
    "priceEstimate flow_10_to_1130 \<noteq> None"
    "now world_A \<le> dateAt (selectedDate flow_10_to_1130) 10 0"
    by (simp_all add: flow_10_to_1130_eval sample_defs dateAt_def ms_per_day_def ms_per_minute_def)
  have selB: "startTime flow_11_to_12 = HHmm 11 0" "endTime flow_11_to_12 = HHmm 12 0"
    "priceEstimate flow_11_to_12 \<noteq> None"
    "now world_B \<le> dateAt (selectedDate flow_11_to_12) 11 0"
    by (simp_all add: flow_11_to_12_eval sample_defs dateAt_def ms_per_day_def ms_per_minute_def)
  from selA obtain estA where estA: "priceEstimate flow_10_to_1130 = Some estA" by blast
  from selB obtain estB where estB: "priceEstimate flow_11_to_12 = Some estB" by blast
  from submitBooking_accepts[OF selA(1,2) estA _ selA(4), of charger_R1 "Some renter_A"]
  obtain bA where bA:
    "created (submitBooking world_A charger_R1 (Some renter_A) flow_10_to_1130) = Some bA"
    "toasts (submitBooking world_A charger_R1 (Some renter_A) flow_10_to_1130)
       = [toast_success ''Booking created successfully!'']"
    by auto
  from submitBooking_accepts[OF selB(1,2) estB _ selB(4), of charger_R1 "Some renter_B"]
  obtain bB where bB:
    "created (submitBooking world_B charger_R1 (Some renter_B) flow_11_to_12) = Some bB"
    "toasts (submitBooking world_B charger_R1 (Some renter_B) flow_11_to_12)
       = [toast_success ''Booking created successfully!'']"
    by auto
  from submitBooking_created[OF bA(1)] selA(1,2)
  have fA: "charger_id bA = 1" "renter_id bA = 7"
    "start_time bA = dateAt (selectedDate flow_10_to_1130) 10 0"
    "end_time bA = dateAt (selectedDate flow_10_to_1130) 11 30"
    by (auto simp: charger_R1_def renter_A_def)
  from submitBooking_created[OF bB(1)] selB(1,2)
  have fB: "charger_id bB = 1" "renter_id bB = 8"
    "start_time bB = dateAt (selectedDate flow_11_to_12) 11 0"
    "end_time bB = dateAt (selectedDate flow_11_to_12) 12 0"
    by (auto simp: charger_R1_def renter_B_def)
  have overlap: "start_time bA < end_time bB" "start_time bB < end_time bA"
    unfolding fA fB
    by (simp_all add: flow_10_to_1130_eval flow_11_to_12_eval initialFlow_def dateAt_def
        ms_per_minute_def)
  from bA bB fA(1,2) fB(1,2) overlap show ?thesis by blast
qed

subsection \<open>C2\<close>

text \<open>
  C2. With a per-hour rule at 50 per hour, booking fee 10 and the 15 percent platform rate
  of the code, a selection from 10:00 to 11:30 that the rule's session bounds admit is priced
  with duration 1.5 hours, subtotal 75, platform fee 11.25, booking fee 10 and total 96.25,
  and the total is the sum of subtotal, platform fee and booking fee.
\<close>

theorem per_hour_scenario_breakdown:
  assumes "pricing ch = Some p" and "pricing_type p = per_hour"
    and "price_value p = 50" and "booking_fee p = 10"
    and "or_default (min_session_minutes p) 30 \<le> 90"
    and "90 \<le> or_default (max_session_minutes p) 480"
    and "startTime st = HHmm 10 0" and "endTime st = HHmm 11 30"
  shows "\<exists>e. calculatePriceEstimate ch st = ([], Some e) \<and>
           duration_hours e = 3 / 2 \<and> subtotal e = 75 \<and> platform_fee e = 45 / 4 \<and>
           booking_fee_pe e = 10 \<and> total_pe e = 385 / 4 \<and>
           total_pe e = subtotal e + platform_fee e + booking_fee_pe e"
proof -
  have "\<exists>e. calculatePriceEstimate ch st = ([], Some e)"
    using assms by (intro calculatePriceEstimate_valid[where sh=10 and sm=0 and eh=11 and em=30 and p=p]) simp_all
  then obtain e where e: "calculatePriceEstimate ch st = ([], Some e)" ..
  then have "snd (calculatePriceEstimate ch st) = Some e" by simp
  from calculatePriceEstimate_Some[OF this] assms
  have "duration_hours e = 3 / 2 \<and> subtotal e = 75 \<and> platform_fee e = 45 / 4 \<and>
           booking_fee_pe e = 10 \<and> total_pe e = 385 / 4 \<and>
           total_pe e = subtotal e + platform_fee e + booking_fee_pe e"
    by auto
  with e show ?thesis by blast
qed

theorem per_hour_scenario_breakdown_witness:
  "\<exists>e. calculatePriceEstimate charger_R1 selection_10_to_1130 = ([], Some e) \<and>
           duration_hours e = 3 / 2 \<and> subtotal e = 75 \<and> platform_fee e = 45 / 4 \<and>
           booking_fee_pe e = 10 \<and> total_pe e = 385 / 4 \<and>
           total_pe e = subtotal e + platform_fee e + booking_fee_pe e"
  by (rule per_hour_scenario_breakdown[where p = rule_hourly])
     (simp_all add: sample_defs or_default_def)

subsection \<open>C3\<close>

text \<open>
  C3 as stated fails: the selection 10:00 to 11:30 on a Friday lies inside the peak window
  09:00 to 12:00 of a rule with peak multiplier 1.2, so the specification's subtotal is 90,
  and the code's is 75.
\<close>

theorem peak_multiplier_not_applied:
  "spec_overlaps_peak rule_hourly (10 * 60) (11 * 60 + 30) \<and>
   spec_per_duration_subtotal rule_hourly opened_at (10 * 60) (11 * 60 + 30) = 90 \<and>
   map_option subtotal (snd (calculatePriceEstimate charger_R1 selection_10_to_1130)) = Some 75 \<and>
   map_option subtotal (snd (calculatePriceEstimate charger_R1 selection_10_to_1130)) \<noteq>
     Some (spec_per_duration_subtotal rule_hourly opened_at (10 * 60) (11 * 60 + 30))"
proof -
  have peak: "spec_overlaps_peak rule_hourly (10 * 60) (11 * 60 + 30)"
    by (simp add: spec_overlaps_peak_def rule_hourly_def)
  have weekday: "\<not> spec_is_weekend opened_at"
    by (simp add: spec_is_weekend_def opened_at_def ms_per_day_def ms_per_minute_def)
  have spec: "spec_per_duration_subtotal rule_hourly opened_at (10 * 60) (11 * 60 + 30) = 90"
    unfolding spec_per_duration_subtotal_def Let_def using peak weekday
    by (simp add: rule_hourly_def)
  have code: "map_option subtotal (snd (calculatePriceEstimate charger_R1 selection_10_to_1130)) = Some 75"
    by (simp add: sample_defs handler_defs)
  have differ: "map_option subtotal (snd (calculatePriceEstimate charger_R1 selection_10_to_1130)) \<noteq>
     Some (spec_per_duration_subtotal rule_hourly opened_at (10 * 60) (11 * 60 + 30))"
    unfolding code spec by simp
  from peak spec code differ show ?thesis by blast
qed

text \<open>
  C3, amended. In per-hour mode the subtotal of every estimate that is computed is
  duration_hours times the unit price, and nothing more: the rule's peak window, peak
  multiplier and weekend multiplier and the day of the week are not read, so replacing them
  leaves the whole result unchanged.
\<close>

theorem per_hour_subtotal_unadjusted:
  assumes "pricing ch = Some p" and "pricing_type p = per_hour"
    and "startTime st = HHmm sh sm" and "endTime st = HHmm eh em"
    and "snd (calculatePriceEstimate ch st) = Some e"
  shows "duration_hours e =
           of_int (differenceInMinutes (dateAt (selectedDate st) eh em)
                     (dateAt (selectedDate st) sh sm)) / 60 \<and>
         subtotal e = duration_hours e * price_value p \<and>
         calculatePriceEstimate
           (ch \<lparr> pricing := Some (p \<lparr> peak_hours_start := ps, peak_hours_end := pe,
                                     peak_price_multiplier := pm,
                                     weekend_price_multiplier := wm \<rparr>) \<rparr>)
           (st \<lparr> selectedDate := d \<rparr>)
         = calculatePriceEstimate ch st"
proof -
  from calculatePriceEstimate_Some[OF assms(5)] obtain q where
    q: "pricing ch = Some q"
       "subtotal e =
          (case pricing_type q of
             per_hour \<Rightarrow> duration_hours e * price_value q
           | per_kwh \<Rightarrow> energy_estimate_kwh e * price_value q
           | flat_rate \<Rightarrow> price_value q)"
    by blast
  from q(1) assms(1) have "q = p" by simp
  with q(2) assms(2) have sub: "subtotal e = duration_hours e * price_value p" by simp
  have same: "calculatePriceEstimate
           (ch \<lparr> pricing := Some (p \<lparr> peak_hours_start := ps, peak_hours_end := pe,
                                     peak_price_multiplier := pm,
                                     weekend_price_multiplier := wm \<rparr>) \<rparr>)
           (st \<lparr> selectedDate := d \<rparr>)
         = calculatePriceEstimate ch st"
    using assms(1,3,4)
    by (cases "eh * 60 + em \<le> sh * 60 + sm")
       (simp_all add: calculatePriceEstimate_def dateAt_le_iff differenceInMinutes_dateAt Let_def)
  from selection_minutes[OF assms(5,3,4)] sub same show ?thesis by blast
qed

theorem per_hour_subtotal_unadjusted_witness:
  "map_option subtotal (snd (calculatePriceEstimate charger_R1 selection_10_to_1130))
     = Some (3 / 2 * price_value rule_hourly) \<and>
   calculatePriceEstimate
     (charger_R1 \<lparr> pricing := Some (rule_hourly \<lparr> peak_hours_start := HHmm 0 0,
        peak_hours_end := HHmm 23 59, peak_price_multiplier := 2,
        weekend_price_multiplier := 3 \<rparr>) \<rparr>)
     (selection_10_to_1130 \<lparr> selectedDate := opened_at + ms_per_day \<rparr>)
   = calculatePriceEstimate charger_R1 selection_10_to_1130 \<and>
   spec_is_weekend (opened_at + ms_per_day)"
proof -
  obtain e where e: "snd (calculatePriceEstimate charger_R1 selection_10_to_1130) = Some e"
    by (simp add: sample_defs handler_defs)
  have d: "differenceInMinutes (dateAt x 11 30) (dateAt x 10 0) = 90" for x
    by (simp add: differenceInMinutes_dateAt)
  have p: "pricing charger_R1 = Some rule_hourly" "pricing_type rule_hourly = per_hour"
    "startTime selection_10_to_1130 = HHmm 10 0" "endTime selection_10_to_1130 = HHmm 11 30"
    by (simp_all add: sample_defs)
  note t = per_hour_subtotal_unadjusted[OF p e, where ps = "HHmm 0 0" and pe = "HHmm 23 59"
      and pm = 2 and wm = 3 and d = "opened_at + ms_per_day"]
  from t have "duration_hours e = of_int (differenceInMinutes
      (dateAt (selectedDate selection_10_to_1130) 11 30)
      (dateAt (selectedDate selection_10_to_1130) 10 0)) / 60"
    by blast
  then have "duration_hours e = 3 / 2" unfolding d by simp
  moreover from t have "subtotal e = duration_hours e * price_value rule_hourly" by blast
  ultimately have "subtotal e = 3 / 2 * price_value rule_hourly" by simp
  with e have sub: "map_option subtotal (snd (calculatePriceEstimate charger_R1 selection_10_to_1130))
     = Some (3 / 2 * price_value rule_hourly)" by simp
  have weekend: "spec_is_weekend (opened_at + ms_per_day)"
    by (simp add: spec_is_weekend_def opened_at_def ms_per_day_def ms_per_minute_def)
  from t sub weekend show ?thesis by blast
qed

subsection \<open>C4\<close>



subsection \<open>C5\<close>

text \<open>
  C5, at a failing input. The rule allows sessions of at most 480 minutes. The renter picks
  10:00 to 11:00, which stores an estimate, then moves the end to 20:00:
  \<open>calculatePriceEstimate\<close> shows the maximum-duration error and leaves the stored estimate
  in place. \<open>validateTimeSelection\<close> does not look at the duration, so \<open>submitBooking\<close>
  creates a booking of 600 minutes, priced with the estimate of the one-hour selection.
\<close>

theorem overlong_booking_created:
  "or_default (max_session_minutes rule_hourly) 480 = 480 \<and>
   fst (setEndTime charger_R1 (HHmm 20 0) flow_10_to_11) = [toast_error_max_duration 8] \<and>
   fst (validateTimeSelection opened_at flow_at_payment) = [] \<and>
   (\<exists>b. created (submitBooking world_A charger_R1 (Some renter_A) flow_at_payment) = Some b \<and>
        differenceInMinutes (end_time b) (start_time b) = 600 \<and>
        total_amount b = 135 / 2)"
proof -
  have m: "or_default (max_session_minutes rule_hourly) 480 = 480"
    by (simp add: rule_hourly_def or_default_def)
  have t: "fst (setEndTime charger_R1 (HHmm 20 0) flow_10_to_11) = [toast_error_max_duration 8]"
    by (simp add: setEndTime_20_eval)
  have sel: "startTime flow_at_payment = HHmm 10 0" "endTime flow_at_payment = HHmm 20 0"
    "priceEstimate flow_at_payment = Some \<lparr> duration_hours = 1, energy_estimate_kwh = 88 / 5,
           subtotal = 50, platform_fee = 15 / 2, booking_fee_pe = 10, total_pe = 135 / 2,
           pricing_type_pe = per_hour, unit_price = 50 \<rparr>"
    "now world_A \<le> dateAt (selectedDate flow_at_payment) 10 0"
    by (simp_all add: flow_at_payment_eval flow_10_to_11_eval sample_defs dateAt_def
        ms_per_day_def ms_per_minute_def)
  have v: "fst (validateTimeSelection opened_at flow_at_payment) = []"
    using sel(4)
    by (simp add: validateTimeSelection_def sel(1,2) Let_def dateAt_le_iff isBefore_def world_A_def)
  from submitBooking_accepts[OF sel(1,2,3) _ sel(4), of charger_R1 "Some renter_A"]
  obtain b where b: "created (submitBooking world_A charger_R1 (Some renter_A) flow_at_payment) = Some b"
    by auto
  from submitBooking_created[OF b] sel(1,2,3)
  have f: "start_time b = dateAt (selectedDate flow_at_payment) 10 0"
    "end_time b = dateAt (selectedDate flow_at_payment) 20 0"
    "total_amount b = 135 / 2"
    by auto
  have "differenceInMinutes (end_time b) (start_time b) = 600"
    unfolding f by (simp add: differenceInMinutes_dateAt)
  with m t v b f(3) show ?thesis by blast
qed

text \<open>
  \<open>submitBooking\<close> does not read the charger's \<open>is_active\<close> flag, and the details page
  enables \<^verbatim>\<open>Book Now\<close> by \<open>current_status\<close> alone: a charger that is not active but
  whose status is available can be booked.
\<close>

lemma inactive_charger_booking_created:
  "bookNowDisabled (charger_R1 \<lparr> is_active := False \<rparr>) = False \<and>
   created (submitBooking world_A (charger_R1 \<lparr> is_active := False \<rparr>) (Some renter_A)
     flow_10_to_1130) \<noteq> None"
proof -
  have sel: "startTime flow_10_to_1130 = HHmm 10 0" "endTime flow_10_to_1130 = HHmm 11 30"
    "priceEstimate flow_10_to_1130 \<noteq> None"
    "now world_A \<le> dateAt (selectedDate flow_10_to_1130) 10 0"
    by (simp_all add: flow_10_to_1130_eval sample_defs dateAt_def ms_per_day_def ms_per_minute_def)
  then obtain est where est: "priceEstimate flow_10_to_1130 = Some est" by blast
  from submitBooking_accepts[OF sel(1,2) est _ sel(4), of "charger_R1 \<lparr> is_active := False \<rparr>" "Some renter_A"]
  have "created (submitBooking world_A (charger_R1 \<lparr> is_active := False \<rparr>) (Some renter_A)
     flow_10_to_1130) \<noteq> None"
    by auto
  moreover have "bookNowDisabled (charger_R1 \<lparr> is_active := False \<rparr>) = False"
    by (simp add: bookNowDisabled_def charger_R1_def)
  ultimately show ?thesis by simp
qed

subsection \<open>C6\<close>

text \<open>
  C6 as stated fails: \<open>submitBooking\<close> takes no idempotency key. The same renter
  submitting the same selection twice gets two bookings that differ (here in their ids,
  1234 and 5678, drawn from \<^verbatim>\<open>Math.random\<close>).
\<close>

theorem repeated_submission_differs:
  "map_option id_booking
     (created (submitBooking world_A charger_R1 (Some renter_A) flow_10_to_1130)) = Some 1234 \<and>
   map_option id_booking
     (created (submitBooking world_B charger_R1 (Some renter_A) flow_10_to_1130)) = Some 5678 \<and>
   created (submitBooking world_B charger_R1 (Some renter_A) flow_10_to_1130) \<noteq>
   created (submitBooking world_A charger_R1 (Some renter_A) flow_10_to_1130)"
proof -
  have sel: "startTime flow_10_to_1130 = HHmm 10 0" "endTime flow_10_to_1130 = HHmm 11 30"
    "priceEstimate flow_10_to_1130 \<noteq> None"
    "now world_A \<le> dateAt (selectedDate flow_10_to_1130) 10 0"
    "now world_B \<le> dateAt (selectedDate flow_10_to_1130) 10 0"
    by (simp_all add: flow_10_to_1130_eval sample_defs dateAt_def ms_per_day_def ms_per_minute_def)
  then obtain est where est: "priceEstimate flow_10_to_1130 = Some est" by blast
  have a: "map_option id_booking
     (created (submitBooking world_A charger_R1 (Some renter_A) flow_10_to_1130)) = Some 1234"
    by (simp add: submitBooking_value[OF sel(1,2) est _ sel(4)]) (simp add: world_A_def)
  have b: "map_option id_booking
     (created (submitBooking world_B charger_R1 (Some renter_A) flow_10_to_1130)) = Some 5678"
    by (simp add: submitBooking_value[OF sel(1,2) est _ sel(5)]) (simp add: world_B_def)
  from a b have "created (submitBooking world_B charger_R1 (Some renter_A) flow_10_to_1130) \<noteq>
   created (submitBooking world_A charger_R1 (Some renter_A) flow_10_to_1130)"
    by auto
  with a b show ?thesis by blast
qed

text \<open>
  C6, amended. \<open>submitBooking\<close> takes no idempotency key and keeps no record of earlier
  calls. When a call has created a booking and the selection is submitted again by the same
  requester before the selected start, from the same state or from the state the first call
  left, a booking is created again: it agrees with the first on charger, requester, start,
  end, status, payment status, amounts, currency, vehicle and instructions, and takes its
  id, booking code, QR code, access code and timestamps from the second call's own random
  draws and clock readings.
\<close>

theorem repeated_submission_creates_again:
  assumes "created (submitBooking w1 ch user st) = Some b1"
    and "now w2 \<le> start_time b1"
  shows "created (submitBooking w2 ch user st) =
           Some (b1 \<lparr> id_booking := \<lfloor>random_id w2 * 10000\<rfloor>,
                      booking_code := ''BK'' @ random_text 8 (random_booking_code w2),
                      qr_code_url := generateQRCode (''BK'' @ random_text 8 (random_qr_code w2)),
                      access_code := random_text 6 (random_access_code w2),
                      created_at := now_created w2,
                      updated_at := now_updated w2 \<rparr>) \<and>
         created (submitBooking w2 ch user (flow (submitBooking w1 ch user st))) =
           created (submitBooking w2 ch user st)"
proof -
  from submitBooking_created[OF assms(1)] obtain sh sm eh em estimate where
    f: "startTime st = HHmm sh sm" "endTime st = HHmm eh em"
       "priceEstimate st = Some estimate" "sh * 60 + sm < eh * 60 + em"
       "now w1 \<le> dateAt (selectedDate st) sh sm"
       "start_time b1 = dateAt (selectedDate st) sh sm"
    by blast
  from f(6) assms(2) have n2: "now w2 \<le> dateAt (selectedDate st) sh sm" by simp
  have b1: "Some b1 = created (submitBooking w1 ch user st)" using assms(1) by simp
  have first: "created (submitBooking w2 ch user st) =
           Some (b1 \<lparr> id_booking := \<lfloor>random_id w2 * 10000\<rfloor>,
                      booking_code := ''BK'' @ random_text 8 (random_booking_code w2),
                      qr_code_url := generateQRCode (''BK'' @ random_text 8 (random_qr_code w2)),
                      access_code := random_text 6 (random_access_code w2),
                      created_at := now_created w2,
                      updated_at := now_updated w2 \<rparr>)"
    using b1 unfolding submitBooking_value[OF f(1,2,3,4,5)] submitBooking_value[OF f(1,2,3,4) n2]
    by auto
  have second: "created (submitBooking w2 ch user (flow (submitBooking w1 ch user st))) =
           created (submitBooking w2 ch user st)"
    using submitBooking_flow_reads[of w1 ch user st]
    by (intro submitBooking_reads(1)) simp_all
  from first second show ?thesis by blast
qed

theorem repeated_submission_creates_again_witness:
  "\<exists>b1. created (submitBooking world_A charger_R1 (Some renter_A) flow_10_to_1130) = Some b1 \<and>
     created (submitBooking world_B charger_R1 (Some renter_A) flow_10_to_1130) =
       Some (b1 \<lparr> id_booking := 5678, booking_code := ''BK2E9V06MI'',
                  qr_code_url := SvgDataUrl ''BK77L3DT51'', access_code := ''1HY84Q'',
                  created_at := opened_at, updated_at := opened_at \<rparr>) \<and>
     created (submitBooking world_B charger_R1 (Some renter_A)
        (flow (submitBooking world_A charger_R1 (Some renter_A) flow_10_to_1130))) =
       created (submitBooking world_B charger_R1 (Some renter_A) flow_10_to_1130)"
proof -
  have sel: "startTime flow_10_to_1130 = HHmm 10 0" "endTime flow_10_to_1130 = HHmm 11 30"
    "priceEstimate flow_10_to_1130 \<noteq> None"
    "now world_A \<le> dateAt (selectedDate flow_10_to_1130) 10 0"
    by (simp_all add: flow_10_to_1130_eval sample_defs dateAt_def ms_per_day_def ms_per_minute_def)
  then obtain est where est: "priceEstimate flow_10_to_1130 = Some est" by blast
  from submitBooking_accepts[OF sel(1,2) est _ sel(4)]
  obtain b1 where b1: "created (submitBooking world_A charger_R1 (Some renter_A) flow_10_to_1130) = Some b1"
    by auto
  from submitBooking_created[OF b1] have "start_time b1 = dateAt (selectedDate flow_10_to_1130) 10 0"
    using sel(1) by auto
  then have early: "now world_B \<le> start_time b1"
    by (simp add: flow_10_to_1130_eval sample_defs dateAt_def ms_per_day_def ms_per_minute_def)
  have draws: "\<lfloor>random_id world_B * 10000\<rfloor> = 5678"
    "''BK'' @ random_text 8 (random_booking_code world_B) = ''BK2E9V06MI''"
    "generateQRCode (''BK'' @ random_text 8 (random_qr_code world_B)) = SvgDataUrl ''BK77L3DT51''"
    "random_text 6 (random_access_code world_B) = ''1HY84Q''"
    "now_created world_B = opened_at" "now_updated world_B = opened_at"
    by (simp_all add: world_B_def random_text_def base36_upper_def generateQRCode_def)
  from repeated_submission_creates_again[OF b1 early] b1 show ?thesis
    unfolding draws by blast
qed

subsection \<open>C7\<close>

text \<open>
  C7. Every booking that \<open>submitBooking\<close> creates has status confirmed if the charger's
  \<open>auto_accept_bookings\<close> flag is set, and pending otherwise.
\<close>

theorem created_booking_status:
  assumes "created (submitBooking w ch user st) = Some b"
  shows "status b = (if auto_accept_bookings ch then confirmed else pending)"
  using submitBooking_created[OF assms] by blast

theorem created_booking_status_witness:
  "map_option status (created (submitBooking world_A charger_R1 (Some renter_A) flow_10_to_1130))
     = Some pending \<and>
   map_option status (created (submitBooking world_A charger_kwh (Some renter_A) flow_10_to_1130))
     = Some confirmed"
proof -
  have sel: "startTime flow_10_to_1130 = HHmm 10 0" "endTime flow_10_to_1130 = HHmm 11 30"
    "priceEstimate flow_10_to_1130 \<noteq> None"
    "now world_A \<le> dateAt (selectedDate flow_10_to_1130) 10 0"
    by (simp_all add: flow_10_to_1130_eval sample_defs dateAt_def ms_per_day_def ms_per_minute_def)
  then obtain est where est: "priceEstimate flow_10_to_1130 = Some est" by blast
  from submitBooking_accepts[OF sel(1,2) est _ sel(4)]
  obtain b1 where b1: "created (submitBooking world_A charger_R1 (Some renter_A) flow_10_to_1130) = Some b1"
    by auto
  from submitBooking_accepts[OF sel(1,2) est _ sel(4)]
  obtain b2 where b2: "created (submitBooking world_A charger_kwh (Some renter_A) flow_10_to_1130) = Some b2"
    by auto
  have "status b1 = pending"
    using created_booking_status[OF b1] by (simp add: sample_defs)
  moreover have "status b2 = confirmed"
    using created_booking_status[OF b2] by (simp add: sample_defs)
  ultimately show ?thesis using b1 b2 by simp
qed

subsection \<open>C8\<close>

text \<open>
  C8. \<open>calculatePriceEstimate\<close> reads no clock and draws no random number (it takes no
  \<open>World\<close>): two calls that agree on the selected clock times and calendar day, on the
  pricing rule and on the charger's power return the same result, toasts and cost breakdown
  alike, whatever else differs in the component state, the charger or the time of day at
  which the date was picked.
\<close>

theorem price_estimate_deterministic:
  assumes "startTime st1 = startTime st2" and "endTime st1 = endTime st2"
    and "selectedDate st1 div ms_per_day = selectedDate st2 div ms_per_day"
    and "pricing ch1 = pricing ch2" and "max_power_kw ch1 = max_power_kw ch2"
  shows "calculatePriceEstimate ch1 st1 = calculatePriceEstimate ch2 st2"
  using assms(1,2,4,5) by (rule calculatePriceEstimate_cong)

theorem price_estimate_deterministic_witness:
  "calculatePriceEstimate charger_R1 selection_10_to_1130 =
   calculatePriceEstimate
     (charger_R1 \<lparr> id_charger := 9, current_status := offline, auto_accept_bookings := True \<rparr>)
     (flow_10_to_1130 \<lparr> selectedDate := opened_at + 3 * 60 * ms_per_minute, currentStep := 2 \<rparr>)
   \<and> snd (calculatePriceEstimate charger_R1 selection_10_to_1130) \<noteq> None"
proof -
  have "calculatePriceEstimate charger_R1 selection_10_to_1130 =
   calculatePriceEstimate
     (charger_R1 \<lparr> id_charger := 9, current_status := offline, auto_accept_bookings := True \<rparr>)
     (flow_10_to_1130 \<lparr> selectedDate := opened_at + 3 * 60 * ms_per_minute, currentStep := 2 \<rparr>)"
    by (rule price_estimate_deterministic)
       (simp_all add: flow_10_to_1130_eval selection_10_to_1130_def initialFlow_def
          opened_at_def ms_per_day_def ms_per_minute_def)
  moreover have "snd (calculatePriceEstimate charger_R1 selection_10_to_1130) \<noteq> None"
    by (simp add: sample_defs handler_defs)
  ultimately show ?thesis by simp
qed

subsection \<open>C9\<close>



subsection \<open>C10\<close>

text \<open>
  C10 as stated fails. On the spring-forward day the renter selects start 03:00 and end
  02:30. The end clock time is earlier than the start clock time, but the skipped 02:30 is
  parsed to the instant that the wall clock shows as 03:30: \<open>validateTimeSelection_tz\<close>
  accepts the selection without a message, \<open>calculatePriceEstimate_tz\<close> prices half an
  hour, and \<open>submitBooking_tz\<close> creates a booking of 30 minutes.
\<close>

theorem skipped_end_time_accepted:
  "startTime spring_flow = HHmm 3 0 \<and> endTime spring_flow = HHmm 2 30 \<and>
   validateTimeSelection_tz zone_spring_forward spring_opened_at spring_flow = ([], True) \<and>
   calculatePriceEstimate_tz zone_spring_forward charger_R1 spring_flow =
     ([], Some \<lparr> duration_hours = 1 / 2, energy_estimate_kwh = 44 / 5, subtotal = 25,
                  platform_fee = 15 / 4, booking_fee_pe = 10, total_pe = 155 / 4,
                  pricing_type_pe = per_hour, unit_price = 50 \<rparr>) \<and>
   toasts (submitBooking_tz zone_spring_forward world_spring charger_R1 (Some renter_A) spring_flow)
     = [toast_success ''Booking created successfully!''] \<and>
   map_option (\<lambda>b. differenceInMinutes (end_time b) (start_time b))
     (created (submitBooking_tz zone_spring_forward world_spring charger_R1 (Some renter_A)
        spring_flow)) = Some 30"
proof -
  have dates: "dateAt_tz zone_spring_forward spring_opened_at 3 0 = 1710054000000"
    "dateAt_tz zone_spring_forward spring_opened_at 2 30 = 1710055800000"
    by (simp_all add: dateAt_tz_def localTime_def zone_spring_forward_def spring_opened_at_def
        ms_per_day_def ms_per_minute_def)
  have sel: "startTime spring_selection = HHmm 3 0" "endTime spring_selection = HHmm 2 30"
    "selectedDate spring_selection = spring_opened_at"
    by (simp_all add: spring_selection_def initialFlow_def)
  have est: "calculatePriceEstimate_tz zone_spring_forward charger_R1 spring_selection =
     ([], Some \<lparr> duration_hours = 1 / 2, energy_estimate_kwh = 44 / 5, subtotal = 25,
                  platform_fee = 15 / 4, booking_fee_pe = 10, total_pe = 155 / 4,
                  pricing_type_pe = per_hour, unit_price = 50 \<rparr>)"
    by (simp add: calculatePriceEstimate_tz_def sel dates charger_R1_def rule_hourly_def
        differenceInMinutes_def or_default_def ms_per_minute_def Let_def)
  have flow: "startTime spring_flow = HHmm 3 0" "endTime spring_flow = HHmm 2 30"
    "selectedDate spring_flow = spring_opened_at"
    "priceEstimate spring_flow = Some \<lparr> duration_hours = 1 / 2, energy_estimate_kwh = 44 / 5,
        subtotal = 25, platform_fee = 15 / 4, booking_fee_pe = 10, total_pe = 155 / 4,
        pricing_type_pe = per_hour, unit_price = 50 \<rparr>"
    by (simp_all add: spring_flow_def est sel)
  have future: "\<not> isBefore 1710054000000 spring_opened_at"
    by (simp add: isBefore_def spring_opened_at_def ms_per_day_def ms_per_minute_def)
  have v: "validateTimeSelection_tz zone_spring_forward spring_opened_at spring_flow = ([], True)"
    by (simp add: validateTimeSelection_tz_def flow dates future Let_def)
  have est': "calculatePriceEstimate_tz zone_spring_forward charger_R1 spring_flow =
     ([], Some \<lparr> duration_hours = 1 / 2, energy_estimate_kwh = 44 / 5, subtotal = 25,
                  platform_fee = 15 / 4, booking_fee_pe = 10, total_pe = 155 / 4,
                  pricing_type_pe = per_hour, unit_price = 50 \<rparr>)"
    by (simp add: calculatePriceEstimate_tz_def flow dates charger_R1_def rule_hourly_def
        differenceInMinutes_def or_default_def ms_per_minute_def Let_def)
  have n: "now world_spring = spring_opened_at"
    by (simp add: world_spring_def world_A_def)
  have s: "toasts (submitBooking_tz zone_spring_forward world_spring charger_R1 (Some renter_A) spring_flow)
     = [toast_success ''Booking created successfully!'']"
    "map_option (\<lambda>b. differenceInMinutes (end_time b) (start_time b))
     (created (submitBooking_tz zone_spring_forward world_spring charger_R1 (Some renter_A)
        spring_flow)) = Some 30"
    by (simp_all add: submitBooking_tz_def n v flow dates differenceInMinutes_def
        ms_per_minute_def Let_def)
  from flow(1,2) v est' s show ?thesis by blast
qed

text \<open>
  C10, amended. Start and end are read as clock times on the selected calendar day of the
  runtime's time zone. When both clock times are read with the same UTC offset (no
  daylight-saving change between them), a selection whose end clock time is not later than
  its start clock time is refused with the message \<^verbatim>\<open>End time must be after start time\<close>
  by \<open>validateTimeSelection_tz\<close>, creates no booking in \<open>submitBooking_tz\<close>, and gets the
  same message and no estimate from \<open>calculatePriceEstimate_tz\<close> when the charger has a
  pricing rule; and every booking that is created starts and ends on the selected local
  calendar day.
\<close>

theorem end_not_after_start_rejected_at_one_offset:
  assumes "startTime st = HHmm sh sm" and "endTime st = HHmm eh em"
    and "well_formed_time (startTime st)" and "well_formed_time (endTime st)"
    and "read_with_offset z offset (localTime z (selectedDate st) sh sm)"
    and "read_with_offset z offset (localTime z (selectedDate st) eh em)"
  shows "(eh * 60 + em \<le> sh * 60 + sm \<longrightarrow>
            validateTimeSelection_tz z clock st =
              ([toast_error ''End time must be after start time''], False) \<and>
            submitBooking_tz z w ch user st =
              \<lparr> toasts = [toast_error ''End time must be after start time''],
                created = None, flow = st \<rparr> \<and>
            (\<forall>p. pricing ch = Some p \<longrightarrow>
               calculatePriceEstimate_tz z ch st =
                 ([toast_error ''End time must be after start time''], None))) \<and>
         (\<forall>b. created (submitBooking_tz z w ch user st) = Some b \<longrightarrow>
            start_time b < end_time b \<and>
            localOf z (start_time b) div ms_per_day = localOf z (selectedDate st) div ms_per_day \<and>
            localOf z (end_time b) div ms_per_day = localOf z (selectedDate st) div ms_per_day)"
proof (intro conjI allI impI)
  assume a: "eh * 60 + em \<le> sh * 60 + sm"
  then have le: "dateAt_tz z (selectedDate st) eh em \<le> dateAt_tz z (selectedDate st) sh sm"
    using dateAt_tz_le_iff[OF assms(5,6)] by simp
  show "validateTimeSelection_tz z clock st =
      ([toast_error ''End time must be after start time''], False)"
    using le by (simp add: validateTimeSelection_tz_def assms(1,2) Let_def)
  have "validateTimeSelection_tz z (now w) st =
      ([toast_error ''End time must be after start time''], False)"
    using le by (simp add: validateTimeSelection_tz_def assms(1,2) Let_def)
  then show "submitBooking_tz z w ch user st =
      \<lparr> toasts = [toast_error ''End time must be after start time''], created = None, flow = st \<rparr>"
    by (simp add: submitBooking_tz_def)
  fix p
  assume "pricing ch = Some p"
  with le show "calculatePriceEstimate_tz z ch st =
      ([toast_error ''End time must be after start time''], None)"
    by (simp add: calculatePriceEstimate_tz_def assms(1,2) Let_def)
next
  fix b
  assume c: "created (submitBooking_tz z w ch user st) = Some b"
  from submitBooking_tz_created[OF c] assms(1,2)
  have f: "dateAt_tz z (selectedDate st) sh sm < dateAt_tz z (selectedDate st) eh em"
       "start_time b = dateAt_tz z (selectedDate st) sh sm"
       "end_time b = dateAt_tz z (selectedDate st) eh em"
    by auto
  from assms(1-4) have wf: "sh < 24" "sm < 60" "eh < 24" "em < 60" by simp_all
  from f show "start_time b < end_time b" by simp
  show "localOf z (start_time b) div ms_per_day = localOf z (selectedDate st) div ms_per_day"
    unfolding f(2) localOf_dateAt_tz[OF assms(5)] using wf by (simp add: localTime_day)
  show "localOf z (end_time b) div ms_per_day = localOf z (selectedDate st) div ms_per_day"
    unfolding f(3) localOf_dateAt_tz[OF assms(6)] using wf by (simp add: localTime_day)
qed


theorem end_not_after_start_rejected_at_one_offset_witness:
  "validateTimeSelection_tz zone_india opened_at reversed_selection
     = ([toast_error ''End time must be after start time''], False) \<and>
   created (submitBooking_tz zone_india world_india charger_R1 (Some renter_A) reversed_selection)
     = None \<and>
   calculatePriceEstimate_tz zone_india charger_R1 reversed_selection
     = ([toast_error ''End time must be after start time''], None) \<and>
   map_option (\<lambda>b. (localOf zone_india (start_time b) div ms_per_day,
                      localOf zone_india (end_time b) div ms_per_day))
     (created (submitBooking_tz zone_india world_india charger_R1 (Some renter_A) flow_10_to_1130))
     = Some (20000, 20000) \<and>
   validateTimeSelection_tz zone_spring_forward spring_opened_at
     (spring_selection \<lparr> startTime := HHmm 11 30, endTime := HHmm 10 0 \<rparr>)
     = ([toast_error ''End time must be after start time''], False)"
proof -
  have india: "read_with_offset zone_india (330 * ms_per_minute) r" for r
    by (simp add: read_with_offset_def zone_india_def fixed_zone_def)
  have rev: "startTime reversed_selection = HHmm 11 30" "endTime reversed_selection = HHmm 10 0"
    by (simp_all add: reversed_selection_def initialFlow_def)
  have wf: "well_formed_time (HHmm 11 30)" "well_formed_time (HHmm 10 0)" by simp_all
  note t1 = end_not_after_start_rejected_at_one_offset[OF rev, unfolded rev, OF wf india india,
      of opened_at world_india charger_R1 "Some renter_A"]
  from t1 have r1: "validateTimeSelection_tz zone_india opened_at reversed_selection
       = ([toast_error ''End time must be after start time''], False)"
    "submitBooking_tz zone_india world_india charger_R1 (Some renter_A) reversed_selection
       = \<lparr> toasts = [toast_error ''End time must be after start time''],
           created = None, flow = reversed_selection \<rparr>"
    "calculatePriceEstimate_tz zone_india charger_R1 reversed_selection
       = ([toast_error ''End time must be after start time''], None)"
    by (simp_all add: charger_R1_def)
  have sel: "startTime flow_10_to_1130 = HHmm 10 0" "endTime flow_10_to_1130 = HHmm 11 30"
    "selectedDate flow_10_to_1130 = opened_at" "priceEstimate flow_10_to_1130 \<noteq> None"
    by (simp_all add: flow_10_to_1130_eval initialFlow_def)
  have dates: "dateAt_tz zone_india opened_at 10 0 = 1728016200000"
    "dateAt_tz zone_india opened_at 11 30 = 1728021600000"
    by (simp_all add: dateAt_tz_def localTime_def zone_india_def fixed_zone_def opened_at_def
        ms_per_day_def ms_per_minute_def)
  have early: "\<not> isBefore 1728016200000 (now world_india)"
    by (simp add: isBefore_def world_india_def world_A_def ms_per_day_def)
  have "validateTimeSelection_tz zone_india (now world_india) flow_10_to_1130 = ([], True)"
    by (simp add: validateTimeSelection_tz_def sel dates early Let_def)
  with sel(4) obtain b where
    b: "created (submitBooking_tz zone_india world_india charger_R1 (Some renter_A) flow_10_to_1130)
          = Some b"
    by (auto simp: submitBooking_tz_def sel(1,2) Let_def)
  note t2 = end_not_after_start_rejected_at_one_offset[OF sel(1,2), unfolded sel(1,2), OF wf(2,1)
      india india, of opened_at world_india charger_R1 "Some renter_A"]
  from t2 b have
    "localOf zone_india (start_time b) div ms_per_day = localOf zone_india opened_at div ms_per_day"
    "localOf zone_india (end_time b) div ms_per_day = localOf zone_india opened_at div ms_per_day"
    unfolding sel(3) by blast+
  moreover have "localOf zone_india opened_at div ms_per_day = 20000"
    by (simp add: zone_india_def fixed_zone_def opened_at_def ms_per_day_def ms_per_minute_def)
  ultimately have r2: "map_option (\<lambda>b. (localOf zone_india (start_time b) div ms_per_day,
                      localOf zone_india (end_time b) div ms_per_day))
     (created (submitBooking_tz zone_india world_india charger_R1 (Some renter_A) flow_10_to_1130))
     = Some (20000, 20000)"
    using b by simp
  let ?late = "spring_selection \<lparr> startTime := HHmm 11 30, endTime := HHmm 10 0 \<rparr>"
  have late: "startTime ?late = HHmm 11 30" "endTime ?late = HHmm 10 0"
    "selectedDate ?late = spring_opened_at"
    by (simp_all add: spring_selection_def initialFlow_def)
  have after_jump:
    "read_with_offset zone_spring_forward (- (4 * 60 * ms_per_minute))
       (localTime zone_spring_forward spring_opened_at 11 30)"
    "read_with_offset zone_spring_forward (- (4 * 60 * ms_per_minute))
       (localTime zone_spring_forward spring_opened_at 10 0)"
    by (simp_all add: read_with_offset_def localTime_def zone_spring_forward_def
        spring_opened_at_def ms_per_day_def ms_per_minute_def)
  note t3 = end_not_after_start_rejected_at_one_offset[OF late(1,2), unfolded late, OF wf
      after_jump, of spring_opened_at world_spring charger_R1 "Some renter_A"]
  from t3 have r3: "validateTimeSelection_tz zone_spring_forward spring_opened_at ?late
     = ([toast_error ''End time must be after start time''], False)"
    by simp
  from r1 r2 r3 show ?thesis by simp
qed

end
